theory Spec2Isabelle
  imports Complex_Main "HOL-Library.Sublist"
begin

section \<open>Python values\<close>

text \<open>
  A Python \<open>str\<close> is a sequence of Unicode code points. String literals of the source
  are written \<open>cp ''...''\<close>.
\<close>

type_synonym codepoint = nat
type_synonym pystr = "codepoint list"

definition cp :: "string \<Rightarrow> pystr" where
  "cp s = map of_char s"

text \<open>
  The values \<open>json.load\<close> produces. A \<open>dict\<close> is an association list in insertion
  order; a key is looked up with \<open>map_of\<close>.
\<close>

datatype json =
    JNull
  | JBool bool
  | JInt int
  | JFloat real
  | JStr pystr
  | JList "json list"
  | JDict "(pystr \<times> json) list"

datatype error = TypeError | AttributeError | KeyError | ValueError | RuntimeError | OSError

definition isinstance_dict :: "json \<Rightarrow> bool" where
  "isinstance_dict v = (case v of JDict _ \<Rightarrow> True | _ \<Rightarrow> False)"

definition isinstance_list :: "json \<Rightarrow> bool" where
  "isinstance_list v = (case v of JList _ \<Rightarrow> True | _ \<Rightarrow> False)"

definition dict_items :: "json \<Rightarrow> (pystr \<times> json) list" where
  "dict_items v = (case v of JDict d \<Rightarrow> d | _ \<Rightarrow> [])"

definition list_items :: "json \<Rightarrow> json list" where
  "list_items v = (case v of JList xs \<Rightarrow> xs | _ \<Rightarrow> [])"

definition key_in :: "pystr \<Rightarrow> (pystr \<times> json) list \<Rightarrow> bool" where
  "key_in k d = (map_of d k \<noteq> None)"

definition dict_get :: "(pystr \<times> json) list \<Rightarrow> pystr \<Rightarrow> json \<Rightarrow> json" where
  "dict_get d k dflt = (case map_of d k of None \<Rightarrow> dflt | Some v \<Rightarrow> v)"

text \<open>Truth value of a loaded value (\<open>bool(v)\<close>, \<open>not v\<close>, \<open>if v\<close>).\<close>

definition truthy :: "json \<Rightarrow> bool" where
  "truthy v = (case v of
      JNull \<Rightarrow> False
    | JBool b \<Rightarrow> b
    | JInt i \<Rightarrow> i \<noteq> 0
    | JFloat r \<Rightarrow> r \<noteq> 0
    | JStr s \<Rightarrow> s \<noteq> []
    | JList xs \<Rightarrow> xs \<noteq> []
    | JDict d \<Rightarrow> d \<noteq> [])"

section \<open>The standard library, as used by the source\<close>

text \<open>
  The string and Unicode functions of the standard library that the source calls are
  parameters of the model: \<open>unicodedata.normalize('NFKD', s)\<close>,
  \<open>unicodedata.combining(c)\<close>, \<open>s.lower()\<close>, \<open>s.strip()\<close>, \<open>c.isalnum()\<close>, \<open>str(v)\<close> and
  \<open>json.dumps(v, ensure_ascii=False, sort_keys=True)\<close> (\<open>None\<close> when it raises).
  \<open>str_islower\<close> and \<open>str_isdigit\<close> are \<open>c.islower()\<close> and \<open>c.isdigit()\<close>; the source does not
  call them, they classify the characters of a slug.
\<close>

record pylib =
  normalize_NFKD :: "pystr \<Rightarrow> pystr"
  combining :: "codepoint \<Rightarrow> nat"
  str_lower :: "pystr \<Rightarrow> pystr"
  str_strip :: "pystr \<Rightarrow> pystr"
  str_isalnum :: "codepoint \<Rightarrow> bool"
  str_islower :: "codepoint \<Rightarrow> bool"
  str_isdigit :: "codepoint \<Rightarrow> bool"
  py_str :: "json \<Rightarrow> pystr"
  json_dumps :: "json \<Rightarrow> pystr option"

section \<open>Profile validation\<close>

definition REQUIRED_KEYS :: "pystr list" where
  "REQUIRED_KEYS = [cp ''nombre'', cp ''cargo'', cp ''contacto'', cp ''resumen'',
                    cp ''experiencias'', cp ''educacion'', cp ''habilidades'', cp ''idiomas'']"

text \<open>
  \<open>k in p\<close> and \<open>p[k]\<close> for a string \<open>k\<close> and a loaded value \<open>p\<close>: membership is key
  membership on a dict, element equality on a list, the substring test on a string, and
  a \<open>TypeError\<close> on anything else; subscripting with a string is defined on a dict only.
\<close>

definition py_contains :: "json \<Rightarrow> pystr \<Rightarrow> error + bool" where
  "py_contains p k = (case p of
      JDict d \<Rightarrow> Inr (key_in k d)
    | JList xs \<Rightarrow> Inr (JStr k \<in> set xs)
    | JStr s \<Rightarrow> Inr (sublist k s)
    | _ \<Rightarrow> Inl TypeError)"

definition py_subscript :: "json \<Rightarrow> pystr \<Rightarrow> error + json" where
  "py_subscript p k = (case p of
      JDict d \<Rightarrow> (case map_of d k of Some v \<Rightarrow> Inr v | None \<Rightarrow> Inl KeyError)
    | _ \<Rightarrow> Inl TypeError)"

text \<open>\<open>v in (None, '', [])\<close>.\<close>

definition in_None_empty :: "json \<Rightarrow> bool" where
  "in_None_empty v = (v = JNull \<or> v = JStr [] \<or> v = JList [])"

text \<open>The condition of the comprehension: \<open>k not in p or p[k] in (None, '', [])\<close>.\<close>

definition key_missing :: "json \<Rightarrow> pystr \<Rightarrow> error + bool" where
  "key_missing p k = (case py_contains p k of
      Inl e \<Rightarrow> Inl e
    | Inr False \<Rightarrow> Inr True
    | Inr True \<Rightarrow> (case py_subscript p k of Inl e \<Rightarrow> Inl e | Inr v \<Rightarrow> Inr (in_None_empty v)))"

fun missing_keys :: "json \<Rightarrow> pystr list \<Rightarrow> error + pystr list" where
  "missing_keys p [] = Inr []"
| "missing_keys p (k # ks) =
     (case key_missing p k of
        Inl e \<Rightarrow> Inl e
      | Inr b \<Rightarrow>
          (case missing_keys p ks of
             Inl e \<Rightarrow> Inl e
           | Inr missing \<Rightarrow> Inr (if b then k # missing else missing)))"

definition validate_profile :: "json \<Rightarrow> error + bool \<times> pystr list" where
  "validate_profile p = (case missing_keys p REQUIRED_KEYS of
      Inl e \<Rightarrow> Inl e
    | Inr missing \<Rightarrow> Inr (length missing = 0, missing))"

lemma key_missing_dict:
  "key_missing (JDict d) k = Inr (\<not> key_in k d \<or> in_None_empty (dict_get d k JNull))"
  by (auto simp: key_missing_def py_contains_def py_subscript_def key_in_def dict_get_def
      split: option.splits bool.splits)

lemma missing_keys_dict:
  "missing_keys (JDict d) ks = Inr (filter (\<lambda>k. \<not> key_in k d \<or> in_None_empty (dict_get d k JNull)) ks)"
  by (induction ks) (simp_all add: key_missing_dict)

lemma validate_profile_dict:
  "validate_profile (JDict d) =
     Inr (filter (\<lambda>k. \<not> key_in k d \<or> in_None_empty (dict_get d k JNull)) REQUIRED_KEYS = [],
          filter (\<lambda>k. \<not> key_in k d \<or> in_None_empty (dict_get d k JNull)) REQUIRED_KEYS)"
  by (simp add: validate_profile_def missing_keys_dict)

section \<open>Merge and deduplication\<close>

text \<open>\<open>normalize_profiles\<close> (line 37) and \<open>_normalize_perfiles\<close> (line 410).\<close>

definition normalize_profiles :: "json \<Rightarrow> error + json list" where
  "normalize_profiles data =
     (if isinstance_dict data \<and> key_in (cp ''perfiles'') (dict_items data)
         \<and> isinstance_list (dict_get (dict_items data) (cp ''perfiles'') JNull)
      then Inr (list_items (dict_get (dict_items data) (cp ''perfiles'') JNull))
      else if isinstance_list data then Inr (list_items data)
      else Inl ValueError)"

definition normalize_perfiles :: "json \<Rightarrow> error + json list" where
  "normalize_perfiles data =
     (if isinstance_dict data \<and> isinstance_list (dict_get (dict_items data) (cp ''perfiles'') JNull)
      then Inr (list_items (dict_get (dict_items data) (cp ''perfiles'') JNull))
      else if isinstance_list data then Inr (list_items data)
      else Inl ValueError)"

type_synonym identity_key = "pystr \<times> pystr \<times> pystr"

text \<open>
  \<open>_profile_key_for_merge\<close> (line 418). \<open>p.get\<close> raises \<open>AttributeError\<close> when \<open>p\<close> is not
  a dict; only \<open>json.dumps\<close> is inside the \<open>try\<close>.
\<close>

definition identity_key_of :: "pylib \<Rightarrow> json \<Rightarrow> identity_key" where
  "identity_key_of L p =
     (let nombre = str_lower L (str_strip L (py_str L (dict_get (dict_items p) (cp ''nombre'') (JStr []))));
          cargo = str_lower L (str_strip L (py_str L (dict_get (dict_items p) (cp ''cargo'') (JStr []))));
          fingerprint = (case json_dumps L p of
                           Some f \<Rightarrow> f
                         | None \<Rightarrow> nombre @ cp ''|'' @ cargo)
      in (nombre, cargo, fingerprint))"

definition profile_key_for_merge :: "pylib \<Rightarrow> json \<Rightarrow> error + identity_key" where
  "profile_key_for_merge L p =
     (if isinstance_dict p then Inr (identity_key_of L p) else Inl AttributeError)"

text \<open>
  The deduplication loop, written twice in the source: lines 438 to 445 of
  \<open>merge_extra_into_profiles\<close> (\<open>seen\<close>, \<open>result\<close>) and lines 498 to 505 of \<open>main\<close>
  (\<open>seen\<close>, \<open>dedup\<close>).
\<close>

fun merge_loop :: "pylib \<Rightarrow> json list \<Rightarrow> identity_key set \<Rightarrow> json list \<Rightarrow> error + json list" where
  "merge_loop L [] seen result = Inr result"
| "merge_loop L (p # combined) seen result =
     (case profile_key_for_merge L p of
        Inl e \<Rightarrow> Inl e
      | Inr k \<Rightarrow>
          (if k \<in> seen then merge_loop L combined seen result
           else merge_loop L combined (insert k seen) (result @ [p])))"

fun main_dedup_loop :: "pylib \<Rightarrow> json list \<Rightarrow> identity_key set \<Rightarrow> json list \<Rightarrow> error + json list" where
  "main_dedup_loop L [] seen dedup = Inr dedup"
| "main_dedup_loop L (p # combined) seen dedup =
     (case profile_key_for_merge L p of
        Inl e \<Rightarrow> Inl e
      | Inr k \<Rightarrow>
          (if k \<in> seen then main_dedup_loop L combined seen dedup
           else main_dedup_loop L combined (insert k seen) (dedup @ [p])))"

text \<open>Lines 437 to 445: \<open>combined = list(target) + list(extra)\<close>, then the loop.\<close>

definition merge_collections :: "pylib \<Rightarrow> json list \<Rightarrow> json list \<Rightarrow> error + json list" where
  "merge_collections L target extra = merge_loop L (target @ extra) {} []"

text \<open>
  The specification's reading of deduplication: the element at position \<open>i\<close> survives
  exactly when no earlier position carries the same key, and survivors keep their order.
\<close>

definition first_occurrences :: "('a \<Rightarrow> 'k) \<Rightarrow> 'a list \<Rightarrow> 'a list" where
  "first_occurrences key xs =
     map (\<lambda>i. xs ! i) (filter (\<lambda>i. \<forall>j<i. key (xs ! j) \<noteq> key (xs ! i)) [0..<length xs])"

lemma first_occurrences_Nil: "first_occurrences key [] = []"
  by (simp add: first_occurrences_def)

lemma first_occurrences_snoc:
  "first_occurrences key (xs @ [x]) =
     first_occurrences key xs @ (if key x \<in> key ` set xs then [] else [x])"
proof -
  have old: "filter (\<lambda>i. \<forall>j<i. key ((xs @ [x]) ! j) \<noteq> key ((xs @ [x]) ! i)) [0..<length xs]
           = filter (\<lambda>i. \<forall>j<i. key (xs ! j) \<noteq> key (xs ! i)) [0..<length xs]"
    by (rule filter_cong) (auto simp: nth_append)
  have map_old: "map (\<lambda>i. (xs @ [x]) ! i) (filter (\<lambda>i. \<forall>j<i. key (xs ! j) \<noteq> key (xs ! i)) [0..<length xs])
           = map (\<lambda>i. xs ! i) (filter (\<lambda>i. \<forall>j<i. key (xs ! j) \<noteq> key (xs ! i)) [0..<length xs])"
    by (rule map_cong) (auto simp: nth_append)
  have last: "(\<forall>j<length xs. key ((xs @ [x]) ! j) \<noteq> key x) \<longleftrightarrow> key x \<notin> key ` set xs"
  proof
    assume h: "\<forall>j<length xs. key ((xs @ [x]) ! j) \<noteq> key x"
    show "key x \<notin> key ` set xs"
    proof
      assume "key x \<in> key ` set xs"
      then obtain y where y: "y \<in> set xs" "key y = key x" by auto
      then obtain j where j: "j < length xs" "xs ! j = y" by (auto simp: in_set_conv_nth)
      then have "key ((xs @ [x]) ! j) = key x" using y by (simp add: nth_append)
      with h j show False by blast
    qed
  next
    assume h: "key x \<notin> key ` set xs"
    show "\<forall>j<length xs. key ((xs @ [x]) ! j) \<noteq> key x"
    proof (intro allI impI)
      fix j assume j: "j < length xs"
      then have "xs ! j \<in> set xs" by simp
      then have "key (xs ! j) \<in> key ` set xs" by (rule imageI)
      with h have "key (xs ! j) \<noteq> key x" by metis
      then show "key ((xs @ [x]) ! j) \<noteq> key x" using j by (simp add: nth_append)
    qed
  qed
  show ?thesis
    using last by (simp add: first_occurrences_def old map_old)
qed

lemma first_occurrences_append:
  "first_occurrences key (A @ B) =
     first_occurrences key A @ first_occurrences key (filter (\<lambda>b. key b \<notin> key ` set A) B)"
proof (induction B rule: rev_induct)
  case Nil
  show ?case by (simp add: first_occurrences_Nil)
next
  case (snoc b B)
  have "first_occurrences key (A @ B @ [b]) = first_occurrences key ((A @ B) @ [b])"
    by simp
  also have "\<dots> = first_occurrences key (A @ B) @ (if key b \<in> key ` set (A @ B) then [] else [b])"
    by (rule first_occurrences_snoc)
  finally have step: "first_occurrences key (A @ B @ [b]) =
      first_occurrences key (A @ B) @ (if key b \<in> key ` set (A @ B) then [] else [b])" .
  show ?case
  proof (cases "key b \<in> key ` set A")
    case True
    then have "key b \<in> key ` set (A @ B)" by auto
    then show ?thesis using True step snoc.IH by simp
  next
    case False
    have "key b \<in> key ` set (filter (\<lambda>b. key b \<notin> key ` set A) B) \<longleftrightarrow> key b \<in> key ` set B"
      using False by force
    then show ?thesis
      using False step snoc.IH by (simp add: first_occurrences_snoc image_Un)
  qed
qed

lemma merge_loop_first_occurrences:
  assumes "\<forall>p\<in>set ps. isinstance_dict p"
  shows "merge_loop L ps (identity_key_of L ` set pre) (first_occurrences (identity_key_of L) pre)
         = Inr (first_occurrences (identity_key_of L) (pre @ ps))"
  using assms
proof (induction ps arbitrary: pre)
  case Nil
  show ?case by simp
next
  case (Cons p ps)
  have d: "isinstance_dict p" and rest: "\<forall>q\<in>set ps. isinstance_dict q"
    using Cons.prems by simp_all
  have snoc: "first_occurrences (identity_key_of L) (pre @ [p]) =
      first_occurrences (identity_key_of L) pre
        @ (if identity_key_of L p \<in> identity_key_of L ` set pre then [] else [p])"
    by (rule first_occurrences_snoc)
  have IH: "merge_loop L ps (identity_key_of L ` set (pre @ [p]))
              (first_occurrences (identity_key_of L) (pre @ [p]))
            = Inr (first_occurrences (identity_key_of L) ((pre @ [p]) @ ps))"
    by (rule Cons.IH [OF rest])
  show ?case
  proof (cases "identity_key_of L p \<in> identity_key_of L ` set pre")
    case True
    then have "identity_key_of L ` set (pre @ [p]) = identity_key_of L ` set pre"
      by auto
    then show ?thesis
      using True IH snoc d by (simp add: profile_key_for_merge_def)
  next
    case False
    then show ?thesis
      using IH snoc d by (simp add: profile_key_for_merge_def)
  qed
qed

lemma main_dedup_loop_eq: "main_dedup_loop L ps seen acc = merge_loop L ps seen acc"
  by (induction ps arbitrary: seen acc) (auto split: sum.splits)

lemma merge_collections_dicts:
  assumes "\<forall>p\<in>set (A @ B). isinstance_dict p"
  shows "merge_collections L A B = Inr (first_occurrences (identity_key_of L) (A @ B))"
  using merge_loop_first_occurrences [OF assms, of L "[]"]
  by (simp add: merge_collections_def first_occurrences_Nil)

lemma first_occurrences_Cons:
  "first_occurrences key (x # xs) = x # first_occurrences key (filter (\<lambda>y. key y \<noteq> key x) xs)"
proof -
  have one: "first_occurrences key [x] = [x]"
    using first_occurrences_snoc [of key "[]" x] by (simp add: first_occurrences_Nil)
  show ?thesis
    using first_occurrences_append [of key "[x]" xs] by (simp add: one)
qed

section \<open>Text normaliser\<close>

text \<open>
  \<open>_slug\<close> (line 240). The loop over the characters keeps what \<open>isalnum\<close> accepts and
  writes a hyphen (code point 45) for a space (32), a hyphen or an underscore (95).
\<close>

fun slug_out :: "pylib \<Rightarrow> pystr \<Rightarrow> pystr" where
  "slug_out L [] = []"
| "slug_out L (ch # s) =
     (if str_isalnum L ch then ch # slug_out L s
      else if ch = 32 \<or> ch = 45 \<or> ch = 95 then 45 # slug_out L s
      else slug_out L s)"

text \<open>\<open>'--' in slug\<close> and \<open>slug.replace('--', '-')\<close> (left to right, without overlap).\<close>

fun contains_dd :: "pystr \<Rightarrow> bool" where
  "contains_dd (a # b # s) = ((a = 45 \<and> b = 45) \<or> contains_dd (b # s))"
| "contains_dd _ = False"

fun replace_dd :: "pystr \<Rightarrow> pystr" where
  "replace_dd (a # b # s) = (if a = 45 \<and> b = 45 then 45 # replace_dd s else a # replace_dd (b # s))"
| "replace_dd s = s"

lemma length_replace_dd_le: "length (replace_dd s) \<le> length s"
  by (induction s rule: replace_dd.induct) auto

lemma length_replace_dd_less: "contains_dd s \<Longrightarrow> length (replace_dd s) < length s"
proof (induction s rule: replace_dd.induct)
  case (1 a b s)
  show ?case
  proof (cases "a = 45 \<and> b = 45")
    case True
    then show ?thesis using length_replace_dd_le [of s] by simp
  next
    case False
    then show ?thesis using 1 by auto
  qed
qed simp_all

function collapse_hyphens :: "pystr \<Rightarrow> pystr" where
  "collapse_hyphens slug = (if contains_dd slug then collapse_hyphens (replace_dd slug) else slug)"
  by pat_completeness auto
termination
  by (relation "measure length") (auto simp: length_replace_dd_less)

declare collapse_hyphens.simps [simp del]

definition strip_hyphens :: "pystr \<Rightarrow> pystr" where
  "strip_hyphens s = rev (dropWhile (\<lambda>c. c = 45) (rev (dropWhile (\<lambda>c. c = 45) s)))"

definition slug_normalise :: "pylib \<Rightarrow> pystr \<Rightarrow> pystr" where
  "slug_normalise L s =
     str_strip L (str_lower L (filter (\<lambda>c. combining L c = 0) (normalize_NFKD L s)))"

definition slug :: "pylib \<Rightarrow> pystr \<Rightarrow> pystr" where
  "slug L s = strip_hyphens (collapse_hyphens (slug_out L (slug_normalise L s)))"























section \<open>The operating system, Pillow and the renderer\<close>

text \<open>
  Everything outside the interpreter is an operation on a world \<open>'w\<close>:
  \<open>os.path.exists\<close>, \<open>os.path.isdir\<close>, \<open>os.listdir\<close> (\<open>None\<close> when it raises),
  \<open>os.path.isabs\<close>, \<open>os.path.join\<close>, \<open>os.path.splitext\<close>, \<open>os.path.basename\<close>,
  \<open>os.makedirs(path, exist_ok=True)\<close>, reading a file with \<open>json.load\<close>, writing one with
  \<open>json.dump\<close>, \<open>try_import_pillow\<close>, the Pillow pipeline of \<open>preprocess_photo\<close> up to the
  resized image (\<open>None\<close> when it raises, otherwise the size in bytes of the JPEG that
  \<open>im.save\<close> encodes at each quality), the world after \<open>im.save(out_path, quality=q)\<close>, and
  \<open>construir_cv\<close> of \<^verbatim>\<open>generate_cv.py\<close>, which reads \<open>data\<close>, writes one document and may raise.
\<close>

record 'w os_ops =
  path_exists :: "'w \<Rightarrow> pystr \<Rightarrow> bool"
  path_isdir :: "'w \<Rightarrow> pystr \<Rightarrow> bool"
  os_listdir :: "'w \<Rightarrow> pystr \<Rightarrow> pystr list option"
  path_isabs :: "pystr \<Rightarrow> bool"
  path_join :: "pystr \<Rightarrow> pystr \<Rightarrow> pystr"
  path_splitext :: "pystr \<Rightarrow> pystr \<times> pystr"
  path_basename :: "pystr \<Rightarrow> pystr"
  makedirs :: "'w \<Rightarrow> pystr \<Rightarrow> error + 'w"
  load_json :: "'w \<Rightarrow> pystr \<Rightarrow> error + json"
  dump_json :: "'w \<Rightarrow> pystr \<Rightarrow> json \<Rightarrow> error + 'w"
  pillow_installed :: "'w \<Rightarrow> bool"
  image_resized :: "'w \<Rightarrow> pystr \<Rightarrow> int \<Rightarrow> (int \<Rightarrow> int) option"
  image_save :: "'w \<Rightarrow> pystr \<Rightarrow> pystr \<Rightarrow> int \<Rightarrow> int \<Rightarrow> 'w"
  construir_cv :: "'w \<Rightarrow> json \<Rightarrow> pystr \<Rightarrow> error option \<times> 'w"

text \<open>
  What the run prints, one constructor per message of the source; \<open>Documento_generado\<close>
  is the line \<open>construir_cv\<close> prints after it has saved the document.
\<close>

datatype log =
    WARN_perfil_omitido "pystr list"
  | INFO_foto_no_encontrada
  | INFO_foto_procesada pystr
  | WARN_foto_no_procesada pystr error
  | ERROR_fallo_generacion error
  | INFO_anadidos_extra int nat
  | WARN_no_combinar_extra error
  | Documento_generado
  | Listo_CVs_generados int

text \<open>
  \<open>merge_extra_into_profiles\<close> (line 428): the persistent merge. It returns the number of
  profiles written, or raises; the world changes only by the final \<open>json.dump\<close>.
\<close>

definition merge_extra_into_profiles ::
  "'w os_ops \<Rightarrow> pylib \<Rightarrow> 'w \<Rightarrow> pystr \<Rightarrow> pystr \<Rightarrow> (error + nat) \<times> 'w" where
  "merge_extra_into_profiles S L w extra_path target_path =
     (if \<not> path_exists S w extra_path then (Inr 0, w)
      else case load_json S w extra_path of
        Inl e \<Rightarrow> (Inl e, w)
      | Inr extra_raw \<Rightarrow>
     (case load_json S w target_path of
        Inl e \<Rightarrow> (Inl e, w)
      | Inr target_raw \<Rightarrow>
     (case normalize_perfiles extra_raw of
        Inl e \<Rightarrow> (Inl e, w)
      | Inr extra \<Rightarrow>
     (case normalize_perfiles target_raw of
        Inl e \<Rightarrow> (Inl e, w)
      | Inr target \<Rightarrow>
     (case merge_collections L target extra of
        Inl e \<Rightarrow> (Inl e, w)
      | Inr result \<Rightarrow>
     (case dump_json S w target_path (JDict [(cp ''perfiles'', JList result)]) of
        Inl e \<Rightarrow> (Inl e, w)
      | Inr w' \<Rightarrow> (Inr (length result), w')))))))"

text \<open>
  Lines 491 to 509 of \<open>main\<close>: the in-memory merge of \<open>perfiles\<close> with the extra file.
  Any exception is caught: \<open>perfiles\<close> stays as it was and a warning is printed.
\<close>

definition main_combine_extra ::
  "'w os_ops \<Rightarrow> pylib \<Rightarrow> 'w \<Rightarrow> pystr \<Rightarrow> json list \<Rightarrow> json list \<times> log list" where
  "main_combine_extra S L w default_extra_file perfiles =
     (if path_exists S w default_extra_file then
        (case load_json S w default_extra_file of
           Inl e \<Rightarrow> (perfiles, [WARN_no_combinar_extra e])
         | Inr extra_doc \<Rightarrow>
        (case normalize_profiles extra_doc of
           Inl e \<Rightarrow> (perfiles, [WARN_no_combinar_extra e])
         | Inr perfiles_extra \<Rightarrow>
        (case main_dedup_loop L (perfiles @ perfiles_extra) {} [] of
           Inl e \<Rightarrow> (perfiles, [WARN_no_combinar_extra e])
         | Inr dedup \<Rightarrow>
             (dedup, [INFO_anadidos_extra (int (length dedup) - int (length perfiles)) (length dedup)]))))
      else (perfiles, []))"

lemma normalize_perfiles_eq: "normalize_perfiles data = normalize_profiles data"
  by (cases data)
     (auto simp: normalize_perfiles_def normalize_profiles_def isinstance_dict_def
        isinstance_list_def dict_get_def key_in_def dict_items_def split: option.splits)

section \<open>Photo resolver\<close>

text \<open>
  The module constants are paths below \<open>PROJECT_ROOT\<close>, which depends on where the
  script is installed and is a parameter.
\<close>

definition DEFAULT_PHOTOS_DIR :: "'w os_ops \<Rightarrow> pystr \<Rightarrow> pystr" where
  "DEFAULT_PHOTOS_DIR S PROJECT_ROOT =
     path_join S (path_join S (path_join S PROJECT_ROOT (cp ''cv_template'')) (cp ''assets''))
       (cp ''photos'')"

definition PROCESSED_DIRNAME :: "'w os_ops \<Rightarrow> pystr \<Rightarrow> pystr" where
  "PROCESSED_DIRNAME S PROJECT_ROOT =
     path_join S (path_join S PROJECT_ROOT (cp ''output'')) (cp ''_photos_processed'')"

definition photo_exts :: "pystr list" where
  "photo_exts = [cp ''.png'', cp ''.jpg'', cp ''.jpeg'', cp ''.webp'']"

text \<open>
  \<open>resolve_photo_path\<close> (line 53). \<open>os.path.isabs\<close> raises \<open>TypeError\<close> on a value that is
  not a string.
\<close>

definition resolve_photo_path :: "'w os_ops \<Rightarrow> 'w \<Rightarrow> pystr \<Rightarrow> json \<Rightarrow> error + pystr option" where
  "resolve_photo_path S w PROJECT_ROOT ruta =
     (if \<not> truthy ruta then Inr None
      else case ruta of
        JStr r \<Rightarrow>
          (if path_isabs S r then Inr (if path_exists S w r then Some r else None)
           else if path_exists S w (path_join S PROJECT_ROOT r)
                then Inr (Some (path_join S PROJECT_ROOT r))
           else if path_exists S w (path_join S (DEFAULT_PHOTOS_DIR S PROJECT_ROOT) r)
                then Inr (Some (path_join S (DEFAULT_PHOTOS_DIR S PROJECT_ROOT) r))
           else Inr None)
      | _ \<Rightarrow> Inl TypeError)"

text \<open>
  \<open>_find_photo_by_basename\<close> (line 258). Its only caller is \<open>load_profiles_from_excel\<close>.
\<close>

fun first_by_preference :: "pylib \<Rightarrow> pystr list \<Rightarrow> pystr list \<Rightarrow> pystr option" where
  "first_by_preference L [] candidates = None"
| "first_by_preference L (pref # prefs) candidates =
     (case List.find (\<lambda>c. suffix pref (str_lower L c)) candidates of
        Some c \<Rightarrow> Some c
      | None \<Rightarrow> first_by_preference L prefs candidates)"

definition find_photo_by_basename :: "'w os_ops \<Rightarrow> pylib \<Rightarrow> 'w \<Rightarrow> pystr \<Rightarrow> pystr \<Rightarrow> pystr option" where
  "find_photo_by_basename S L w photos_dir base =
     (if base = [] then None
      else case path_splitext S base of (stem, ext) \<Rightarrow>
        if ext \<noteq> [] then
          (if path_exists S w (path_join S photos_dir base)
           then Some (path_join S photos_dir base) else None)
        else first_by_preference L photo_exts
               (filter (path_exists S w) (map (\<lambda>e. path_join S photos_dir (stem @ e)) photo_exts)))"

text \<open>
  \<open>_find_photo_by_name_guess\<close> (line 281). \<open>_slug\<close> raises \<open>TypeError\<close> on a name that is not
  a string (before the \<open>try\<close>); an exception of \<open>os.listdir\<close> is caught and gives \<open>None\<close>.
  \<open>a in b\<close> on strings is the substring test.
\<close>

fun name_guess_loop :: "'w os_ops \<Rightarrow> pylib \<Rightarrow> 'w \<Rightarrow> pystr \<Rightarrow> pystr \<Rightarrow> pystr list \<Rightarrow> pystr option" where
  "name_guess_loop S L w photos_dir slug_nombre [] = None"
| "name_guess_loop S L w photos_dir slug_nombre (fn # fns) =
     (if str_lower L (snd (path_splitext S fn)) \<in> set photo_exts
         \<and> (sublist slug_nombre (slug L (fst (path_splitext S fn)))
              \<or> sublist (slug L (fst (path_splitext S fn))) slug_nombre)
         \<and> path_exists S w (path_join S photos_dir fn)
      then Some (path_join S photos_dir fn)
      else name_guess_loop S L w photos_dir slug_nombre fns)"

definition find_photo_by_name_guess ::
  "'w os_ops \<Rightarrow> pylib \<Rightarrow> 'w \<Rightarrow> pystr \<Rightarrow> json \<Rightarrow> error + pystr option" where
  "find_photo_by_name_guess S L w photos_dir nombre =
     (if \<not> truthy nombre then Inr None
      else case nombre of
        JStr n \<Rightarrow>
          (if \<not> path_isdir S w photos_dir then Inr None
           else case os_listdir S w photos_dir of
             None \<Rightarrow> Inr None
           | Some fns \<Rightarrow> Inr (name_guess_loop S L w photos_dir (slug L n) fns))
      | _ \<Rightarrow> Inl TypeError)"

section \<open>Photo preprocessing\<close>

text \<open>
  Lines 117 to 128 of \<open>preprocess_photo\<close>: the binary search over the JPEG quality.
  \<open>size_at q\<close> is the size of the file that \<open>im.save(out_path, quality=q)\<close> writes;
  \<open>saved\<close> collects the qualities the file was written at, in order.
\<close>

function quality_search ::
  "(int \<Rightarrow> int) \<Rightarrow> int \<Rightarrow> int \<Rightarrow> int \<Rightarrow> int \<Rightarrow> int list \<Rightarrow> int \<times> int list" where
  "quality_search size_at max_bytes low high best_quality saved =
     (if low \<le> high then
        (let q = (low + high) div 2 in
         if size_at q \<le> max_bytes
         then quality_search size_at max_bytes (q + 1) high q (saved @ [q])
         else quality_search size_at max_bytes low (q - 1) best_quality (saved @ [q]))
      else (best_quality, saved))"
  by pat_completeness auto
termination
  by (relation "measure (\<lambda>(size_at, max_bytes, low, high, best_quality, saved). nat (high + 1 - low))")
     auto

declare quality_search.simps [simp del]

definition compress_quality :: "(int \<Rightarrow> int) \<Rightarrow> int \<Rightarrow> int \<times> int list" where
  "compress_quality size_at max_bytes =
     (case quality_search size_at max_bytes 40 95 95 [] of
        (best_quality, saved) \<Rightarrow> (best_quality, saved @ [best_quality]))"




text \<open>
  \<open>preprocess_photo\<close> (line 79). It raises when Pillow is missing, when the target
  directory cannot be made and when the image cannot be opened, converted or resized;
  writing the JPEG is taken to succeed. The file at \<open>out_path\<close> is written once for each
  quality tried and once more at \<open>best_quality\<close>.
\<close>

definition preprocess_photo ::
  "'w os_ops \<Rightarrow> pylib \<Rightarrow> 'w \<Rightarrow> pystr \<Rightarrow> pystr \<Rightarrow> int \<Rightarrow> int \<Rightarrow> (error + pystr) \<times> 'w" where
  "preprocess_photo S L w src_path target_dir target_size_px max_bytes =
     (if \<not> pillow_installed S w then (Inl RuntimeError, w)
      else case makedirs S w target_dir of
        Inl e \<Rightarrow> (Inl e, w)
      | Inr w1 \<Rightarrow>
         (let base = fst (path_splitext S (path_basename S src_path));
              out_path = path_join S target_dir
                           (base @ cp ''_'' @ py_str L (JInt target_size_px) @ cp ''.jpg'')
          in case image_resized S w1 src_path target_size_px of
               None \<Rightarrow> (Inl OSError, w1)
             | Some size_at \<Rightarrow>
                 (Inr out_path,
                  foldl (\<lambda>w' q. image_save S w' out_path src_path target_size_px q) w1
                    (snd (compress_quality size_at max_bytes)))))"

section \<open>Batch orchestrator\<close>

text \<open>
  The state of a run: the world outside, the heap of loaded objects (a profile is the
  index of its dict in the heap) and what has been printed.
\<close>

record 'w state =
  world :: 'w
  heap :: "json list"
  printed :: "log list"

text \<open>\<open>d[k] = v\<close> on a dict: the value is replaced in place, or the key is added last.\<close>

fun dict_set :: "(pystr \<times> json) list \<Rightarrow> pystr \<Rightarrow> json \<Rightarrow> (pystr \<times> json) list" where
  "dict_set [] k v = [(k, v)]"
| "dict_set ((k', v') # d) k v = (if k' = k then (k, v) # d else (k', v') # dict_set d k v)"

definition setitem :: "json list \<Rightarrow> nat \<Rightarrow> pystr \<Rightarrow> json \<Rightarrow> json list" where
  "setitem h a k v = h[a := JDict (dict_set (dict_items (h ! a)) k v)]"

definition path_truthy :: "pystr option \<Rightarrow> bool" where
  "path_truthy r = (case r of None \<Rightarrow> False | Some p \<Rightarrow> p \<noteq> [])"

definition path_value :: "pystr option \<Rightarrow> json" where
  "path_value r = (case r of None \<Rightarrow> JNull | Some p \<Rightarrow> JStr p)"

text \<open>
  Lines 380 to 389 of \<open>build_one\<close>: the photo path of a profile, with the note printed
  when none is found.
\<close>

definition build_one_ruta_foto ::
  "'w os_ops \<Rightarrow> pylib \<Rightarrow> 'w \<Rightarrow> pystr \<Rightarrow> (pystr \<times> json) list \<Rightarrow> error + pystr option \<times> log list" where
  "build_one_ruta_foto S L w PROJECT_ROOT profile =
     (case resolve_photo_path S w PROJECT_ROOT (dict_get profile (cp ''ruta_foto'') JNull) of
        Inl e \<Rightarrow> Inl e
      | Inr ruta_foto \<Rightarrow>
          if truthy (dict_get profile (cp ''incluir_foto'') JNull) \<and> \<not> path_truthy ruta_foto then
            (case find_photo_by_name_guess S L w (DEFAULT_PHOTOS_DIR S PROJECT_ROOT)
                    (dict_get profile (cp ''nombre'') (JStr [])) of
               Inl e \<Rightarrow> Inl e
             | Inr guess \<Rightarrow>
                 if path_truthy guess then Inr (guess, [])
                 else Inr (ruta_foto, [INFO_foto_no_encontrada]))
          else Inr (ruta_foto, []))"

text \<open>
  Lines 391 to 400: \<open>data['ruta_foto']\<close> is set on the copy \<open>data\<close>, to the processed
  photo, or to the resolved one when processing is off or fails.
\<close>

definition build_one_attach ::
  "'w os_ops \<Rightarrow> pylib \<Rightarrow> pystr \<Rightarrow> 'w state \<Rightarrow> nat \<Rightarrow> bool \<Rightarrow> pystr option \<Rightarrow> bool \<Rightarrow> int \<Rightarrow> int
     \<Rightarrow> 'w state" where
  "build_one_attach S L PROJECT_ROOT st data incluir_foto ruta_foto process_photos target_px max_bytes =
     (if incluir_foto \<and> path_truthy ruta_foto \<and> process_photos then
        (case preprocess_photo S L (world st) (case ruta_foto of Some p \<Rightarrow> p | None \<Rightarrow> [])
                (PROCESSED_DIRNAME S PROJECT_ROOT) target_px max_bytes of
           (Inr processed, w') \<Rightarrow>
             st\<lparr>world := w',
                heap := setitem (heap st) data (cp ''ruta_foto'') (JStr processed),
                printed := printed st @ [INFO_foto_procesada processed]\<rparr>
         | (Inl e, w') \<Rightarrow>
             st\<lparr>world := w',
                heap := setitem (heap st) data (cp ''ruta_foto'') (path_value ruta_foto),
                printed := printed st
                  @ [WARN_foto_no_procesada (case ruta_foto of Some p \<Rightarrow> p | None \<Rightarrow> []) e]\<rparr>)
      else st\<lparr>heap := setitem (heap st) data (cp ''ruta_foto'') (path_value ruta_foto)\<rparr>)"

text \<open>
  \<open>build_one\<close> (line 372). The result is \<open>None\<close> when it returns and \<open>Some e\<close> when it
  raises. \<open>data = dict(profile)\<close> allocates a new dict with the items of the profile.
\<close>

definition build_one ::
  "'w os_ops \<Rightarrow> pylib \<Rightarrow> pystr \<Rightarrow> 'w state \<Rightarrow> nat \<Rightarrow> pystr \<Rightarrow> bool \<Rightarrow> int \<Rightarrow> int
     \<Rightarrow> error option \<times> 'w state" where
  "build_one S L PROJECT_ROOT st profile outdir process_photos target_px max_bytes =
     (case validate_profile (heap st ! profile) of
        Inl e \<Rightarrow> (Some e, st)
      | Inr (ok, missing) \<Rightarrow>
          if \<not> ok then (None, st\<lparr>printed := printed st @ [WARN_perfil_omitido missing]\<rparr>)
          else
            (let data = length (heap st);
                 st1 = st\<lparr>heap := heap st @ [JDict (dict_items (heap st ! profile))]\<rparr>
             in case build_one_ruta_foto S L (world st1) PROJECT_ROOT (dict_items (heap st ! profile)) of
                  Inl e \<Rightarrow> (Some e, st1)
                | Inr (ruta_foto, notes) \<Rightarrow>
                   (let st2 = build_one_attach S L PROJECT_ROOT
                                (st1\<lparr>printed := printed st1 @ notes\<rparr>) data
                                (truthy (dict_get (dict_items (heap st ! profile)) (cp ''incluir_foto'') JNull))
                                ruta_foto process_photos target_px max_bytes
                    in case makedirs S (world st2) outdir of
                         Inl e \<Rightarrow> (Some e, st2)
                       | Inr w3 \<Rightarrow>
                          (case construir_cv S w3 (heap st2 ! data) outdir of
                             (Some e, w4) \<Rightarrow> (Some e, st2\<lparr>world := w4\<rparr>)
                           | (None, w4) \<Rightarrow>
                               (None, st2\<lparr>world := w4,
                                          printed := printed st2 @ [Documento_generado]\<rparr>)))))"

text \<open>Lines 515 to 523 of \<open>main\<close>: the loop over the profiles and the final line.\<close>

fun main_generate_loop ::
  "'w os_ops \<Rightarrow> pylib \<Rightarrow> pystr \<Rightarrow> pystr \<Rightarrow> bool \<Rightarrow> int \<Rightarrow> int \<Rightarrow> 'w state \<Rightarrow> nat list \<Rightarrow> int
     \<Rightarrow> int \<times> 'w state" where
  "main_generate_loop S L PROJECT_ROOT outdir process_photos target_size max_bytes st [] count =
     (count, st)"
| "main_generate_loop S L PROJECT_ROOT outdir process_photos target_size max_bytes st (p # perfiles) count =
     (case build_one S L PROJECT_ROOT st p outdir process_photos target_size max_bytes of
        (None, st') \<Rightarrow>
          main_generate_loop S L PROJECT_ROOT outdir process_photos target_size max_bytes st'
            perfiles (count + 1)
      | (Some e, st') \<Rightarrow>
          main_generate_loop S L PROJECT_ROOT outdir process_photos target_size max_bytes
            (st'\<lparr>printed := printed st' @ [ERROR_fallo_generacion e]\<rparr>) perfiles count)"

definition main_generate ::
  "'w os_ops \<Rightarrow> pylib \<Rightarrow> pystr \<Rightarrow> pystr \<Rightarrow> bool \<Rightarrow> int \<Rightarrow> int \<Rightarrow> 'w state \<Rightarrow> nat list
     \<Rightarrow> int \<times> 'w state" where
  "main_generate S L PROJECT_ROOT outdir process_photos target_size max_bytes st perfiles =
     (case main_generate_loop S L PROJECT_ROOT outdir process_photos target_size max_bytes st perfiles 0 of
        (count, st') \<Rightarrow> (count, st'\<lparr>printed := printed st' @ [Listo_CVs_generados count]\<rparr>))"

section \<open>A small library and file system to run the definitions on\<close>

text \<open>
  \<open>sample_lib\<close> behaves as CPython does on ASCII text and on U+4E2D (a CJK ideograph,
  code point 20013): there NFKD changes nothing, no character is a combining mark,
  \<open>lower\<close> maps \<open>A\<close> to \<open>Z\<close> onto \<open>a\<close> to \<open>z\<close>, \<open>strip\<close> removes ASCII white space at both
  ends, and \<open>isalnum\<close> holds of ASCII letters and digits and of U+4E2D. \<open>str\<close> is given for
  strings, \<open>None\<close>, booleans and integers; \<open>json.dumps\<close> writes strings without escapes and
  sorts the keys of a dict.
\<close>

definition ascii_space :: "codepoint \<Rightarrow> bool" where
  "ascii_space c = (c = 32 \<or> (9 \<le> c \<and> c \<le> 13) \<or> (28 \<le> c \<and> c \<le> 31))"

definition ascii_lower :: "codepoint \<Rightarrow> codepoint" where
  "ascii_lower c = (if 65 \<le> c \<and> c \<le> 90 then c + 32 else c)"

definition ascii_strip :: "pystr \<Rightarrow> pystr" where
  "ascii_strip s = rev (dropWhile ascii_space (rev (dropWhile ascii_space s)))"

definition sample_isalnum :: "codepoint \<Rightarrow> bool" where
  "sample_isalnum c =
     ((48 \<le> c \<and> c \<le> 57) \<or> (65 \<le> c \<and> c \<le> 90) \<or> (97 \<le> c \<and> c \<le> 122) \<or> c = 20013)"

function decimal :: "nat \<Rightarrow> pystr" where
  "decimal n = (if n < 10 then [48 + n] else decimal (n div 10) @ [48 + n mod 10])"
  by pat_completeness auto
termination
  by (relation "measure id") auto

definition str_int :: "int \<Rightarrow> pystr" where
  "str_int i = (if i < 0 then cp ''-'' @ decimal (nat (- i)) else decimal (nat i))"

definition sample_str :: "json \<Rightarrow> pystr" where
  "sample_str v = (case v of
      JStr s \<Rightarrow> s
    | JNull \<Rightarrow> cp ''None''
    | JBool b \<Rightarrow> (if b then cp ''True'' else cp ''False'')
    | JInt i \<Rightarrow> str_int i
    | _ \<Rightarrow> cp ''<object>'')"

fun str_less :: "pystr \<Rightarrow> pystr \<Rightarrow> bool" where
  "str_less [] [] = False"
| "str_less [] (y # ys) = True"
| "str_less (x # xs) [] = False"
| "str_less (x # xs) (y # ys) = (x < y \<or> (x = y \<and> str_less xs ys))"

fun insert_sorted :: "pystr \<times> pystr \<Rightarrow> (pystr \<times> pystr) list \<Rightarrow> (pystr \<times> pystr) list" where
  "insert_sorted kv [] = [kv]"
| "insert_sorted kv (x # xs) =
     (if str_less (fst kv) (fst x) then kv # x # xs else x # insert_sorted kv xs)"

fun join_with :: "pystr \<Rightarrow> pystr list \<Rightarrow> pystr" where
  "join_with sep [] = []"
| "join_with sep [x] = x"
| "join_with sep (x # y # ys) = x @ sep @ join_with sep (y # ys)"

primrec sample_dumps :: "json \<Rightarrow> pystr" where
  "sample_dumps JNull = cp ''null''"
| "sample_dumps (JBool b) = (if b then cp ''true'' else cp ''false'')"
| "sample_dumps (JInt i) = str_int i"
| "sample_dumps (JFloat r) = cp ''<float>''"
| "sample_dumps (JStr s) = [34] @ s @ [34]"
| "sample_dumps (JList xs) = cp ''['' @ join_with (cp '', '') (map sample_dumps xs) @ cp '']''"
| "sample_dumps (JDict d) =
     cp ''{'' @ join_with (cp '', '')
        (map (\<lambda>(k, v). [34] @ k @ [34] @ cp '': '' @ v)
           (foldr insert_sorted (map (map_prod id sample_dumps) d) [])) @ cp ''}''"

definition sample_lib :: pylib where
  "sample_lib = \<lparr>
     normalize_NFKD = (\<lambda>s. s),
     combining = (\<lambda>c. 0),
     str_lower = map ascii_lower,
     str_strip = ascii_strip,
     str_isalnum = sample_isalnum,
     str_islower = (\<lambda>c. 97 \<le> c \<and> c \<le> 122),
     str_isdigit = (\<lambda>c. 48 \<le> c \<and> c \<le> 57),
     py_str = sample_str,
     json_dumps = (\<lambda>v. Some (sample_dumps v)) \<rparr>"

lemma sample_lib_sel:
  "normalize_NFKD sample_lib = (\<lambda>s. s)"
  "combining sample_lib = (\<lambda>c. 0)"
  "str_lower sample_lib = map ascii_lower"
  "str_strip sample_lib = ascii_strip"
  "str_isalnum sample_lib = sample_isalnum"
  "str_islower sample_lib = (\<lambda>c. 97 \<le> c \<and> c \<le> 122)"
  "str_isdigit sample_lib = (\<lambda>c. 48 \<le> c \<and> c \<le> 57)"
  "py_str sample_lib = sample_str"
  "json_dumps sample_lib = (\<lambda>v. Some (sample_dumps v))"
  by (simp_all add: sample_lib_def)


lemma sample_normalise: "slug_normalise sample_lib t = ascii_strip (map ascii_lower t)"
  by (simp add: slug_normalise_def sample_lib_def)






text \<open>
  The sample world is a list of paths with what is stored there, the newest entry first;
  paths are POSIX paths.
\<close>

datatype node = JsonFile json | PlainFile | Directory "pystr list"

type_synonym sample_world = "(pystr \<times> node) list"

definition posix_isabs :: "pystr \<Rightarrow> bool" where
  "posix_isabs p = (case p of [] \<Rightarrow> False | c # _ \<Rightarrow> c = 47)"

definition posix_join :: "pystr \<Rightarrow> pystr \<Rightarrow> pystr" where
  "posix_join a b =
     (if posix_isabs b then b
      else if a = [] \<or> last a = 47 then a @ b
      else a @ [47] @ b)"

definition posix_basename :: "pystr \<Rightarrow> pystr" where
  "posix_basename p = rev (takeWhile (\<lambda>c. c \<noteq> 47) (rev p))"

definition posix_splitext :: "pystr \<Rightarrow> pystr \<times> pystr" where
  "posix_splitext p =
     (let name_r = takeWhile (\<lambda>c. c \<noteq> 47) (rev p);
          ext_r = takeWhile (\<lambda>c. c \<noteq> 46) name_r
      in if length ext_r < length name_r
            \<and> (\<exists>c\<in>set (drop (Suc (length ext_r)) name_r). c \<noteq> 46)
         then (take (length p - Suc (length ext_r)) p, drop (length p - Suc (length ext_r)) p)
         else (p, []))"

definition sample_os :: "sample_world os_ops" where
  "sample_os = \<lparr>
     path_exists = (\<lambda>w p. map_of w p \<noteq> None),
     path_isdir = (\<lambda>w p. case map_of w p of Some (Directory _) \<Rightarrow> True | _ \<Rightarrow> False),
     os_listdir = (\<lambda>w p. case map_of w p of Some (Directory es) \<Rightarrow> Some es | _ \<Rightarrow> None),
     path_isabs = posix_isabs,
     path_join = posix_join,
     path_splitext = posix_splitext,
     path_basename = posix_basename,
     makedirs = (\<lambda>w p. case map_of w p of
                    Some (Directory _) \<Rightarrow> Inr w
                  | Some _ \<Rightarrow> Inl OSError
                  | None \<Rightarrow> Inr ((p, Directory []) # w)),
     load_json = (\<lambda>w p. case map_of w p of
                    Some (JsonFile d) \<Rightarrow> Inr d
                  | Some _ \<Rightarrow> Inl ValueError
                  | None \<Rightarrow> Inl OSError),
     dump_json = (\<lambda>w p d. Inr ((p, JsonFile d) # w)),
     pillow_installed = (\<lambda>w. True),
     image_resized = (\<lambda>w src px. case map_of w src of
                    Some PlainFile \<Rightarrow> Some (\<lambda>q. 4000 * q)
                  | _ \<Rightarrow> None),
     image_save = (\<lambda>w out src px q. (out, PlainFile) # w),
     construir_cv = (\<lambda>w data outdir.
        case dict_get (dict_items data) (cp ''nombre'') JNull of
          JStr nombre \<Rightarrow> (None, (posix_join outdir (cp ''CV_'' @ nombre @ cp ''.docx''), PlainFile) # w)
        | _ \<Rightarrow> (Some AttributeError, w)) \<rparr>"

definition profile_A :: json where
  "profile_A = JDict [(cp ''nombre'', JStr (cp ''Ana '')), (cp ''cargo'', JStr (cp ''Dev''))]"

definition profile_B :: json where
  "profile_B = JDict [(cp ''nombre'', JStr (cp ''Ana '')), (cp ''cargo'', JStr (cp ''QA''))]"

definition profile_C :: json where
  "profile_C = JDict [(cp ''nombre'', JStr (cp ''Luis''))]"

definition sample_store :: sample_world where
  "sample_store =
     [(cp ''/d/extra.json'', JsonFile (JList [profile_B, profile_C])),
      (cp ''/d/profiles.json'', JsonFile (JDict [(cp ''perfiles'', JList [profile_A, profile_B])]))]"

lemma sample_keys_distinct:
  "identity_key_of sample_lib profile_A \<noteq> identity_key_of sample_lib profile_B"
  "identity_key_of sample_lib profile_A \<noteq> identity_key_of sample_lib profile_C"
  "identity_key_of sample_lib profile_B \<noteq> identity_key_of sample_lib profile_C"
  by (simp_all add: identity_key_of_def sample_lib_def profile_A_def profile_B_def
      profile_C_def dict_items_def dict_get_def cp_def sample_str_def ascii_strip_def
      ascii_space_def ascii_lower_def)

lemma sample_profiles_dict:
  "isinstance_dict profile_A" "isinstance_dict profile_B" "isinstance_dict profile_C"
  by (simp_all add: isinstance_dict_def profile_A_def profile_B_def profile_C_def)

section \<open>Claims about merging\<close>

text \<open>
  C5. For profile collections \<open>A\<close> and \<open>B\<close> (lists of dicts), the merged result is the
  deduplicated \<open>A\<close> (first occurrence of each identity key, order kept) followed by the
  elements of \<open>B\<close> whose identity key does not occur in \<open>A\<close> (again first occurrence, order
  kept).
\<close>

theorem merge_order_preservation:
  assumes "\<forall>p\<in>set (A @ B). isinstance_dict p"
  shows "merge_collections L A B =
           Inr (first_occurrences (identity_key_of L) A
                @ first_occurrences (identity_key_of L)
                    (filter (\<lambda>b. identity_key_of L b \<notin> identity_key_of L ` set A) B))"
  using merge_collections_dicts [OF assms] by (simp add: first_occurrences_append)

theorem merge_order_preservation_witness:
  "list_all isinstance_dict ([profile_A, profile_B, profile_A] @ [profile_B, profile_C, profile_C])
   \<and> merge_collections sample_lib [profile_A, profile_B, profile_A] [profile_B, profile_C, profile_C]
       = Inr [profile_A, profile_B, profile_C]"
proof -
  have h: "\<forall>p\<in>set ([profile_A, profile_B, profile_A] @ [profile_B, profile_C, profile_C]).
             isinstance_dict p"
    by (simp add: sample_profiles_dict)
  show ?thesis
    using h merge_order_preservation [OF h, of sample_lib] sample_keys_distinct
    by (simp add: first_occurrences_Cons first_occurrences_Nil)
qed

text \<open>
  C6. Merging a profile collection \<open>C\<close> with itself yields \<open>C\<close> after its own
  deduplication: no element of the second copy survives.
\<close>

theorem merge_idempotent:
  assumes "\<forall>p\<in>set C. isinstance_dict p"
  shows "merge_collections L C C = Inr (first_occurrences (identity_key_of L) C)"
proof -
  have "\<forall>p\<in>set (C @ C). isinstance_dict p"
    using assms by simp
  then have "merge_collections L C C = Inr (first_occurrences (identity_key_of L) (C @ C))"
    by (rule merge_collections_dicts)
  moreover have "filter (\<lambda>b. identity_key_of L b \<notin> identity_key_of L ` set C) C = []"
    by (simp add: filter_empty_conv)
  ultimately show ?thesis
    by (simp add: first_occurrences_append first_occurrences_Nil)
qed

theorem merge_idempotent_witness:
  "list_all isinstance_dict [profile_A, profile_B, profile_A]
   \<and> merge_collections sample_lib [profile_A, profile_B, profile_A] [profile_A, profile_B, profile_A]
       = Inr [profile_A, profile_B]"
proof -
  have h: "\<forall>p\<in>set [profile_A, profile_B, profile_A]. isinstance_dict p"
    by (simp add: sample_profiles_dict)
  show ?thesis
    using h merge_idempotent [OF h, of sample_lib] sample_keys_distinct
    by (simp add: first_occurrences_Cons first_occurrences_Nil)
qed

text \<open>
  C7. Given the same target collection \<open>A\<close> and the same extra collection \<open>B\<close>, the
  in-memory merge of \<open>main\<close> yields the deduplicated sequence of \<open>A @ B\<close>, and the
  persistent merge writes exactly that sequence to the target file and returns its
  length (or raises what the write raises): the two differ only in the write.
\<close>

theorem merge_entry_points_agree:
  assumes "path_exists S w extra_path"
      and "load_json S w extra_path = Inr extra_raw"
      and "load_json S w target_path = Inr target_raw"
      and "normalize_profiles target_raw = Inr A"
      and "normalize_profiles extra_raw = Inr B"
      and "\<forall>p\<in>set (A @ B). isinstance_dict p"
  shows "fst (main_combine_extra S L w extra_path A) = first_occurrences (identity_key_of L) (A @ B)
       \<and> merge_extra_into_profiles S L w extra_path target_path =
           (case dump_json S w target_path
                   (JDict [(cp ''perfiles'', JList (fst (main_combine_extra S L w extra_path A)))]) of
              Inl e \<Rightarrow> (Inl e, w)
            | Inr w' \<Rightarrow> (Inr (length (fst (main_combine_extra S L w extra_path A))), w'))"
proof -
  have loop: "merge_loop L (A @ B) {} [] = Inr (first_occurrences (identity_key_of L) (A @ B))"
    using merge_collections_dicts [OF assms(6), of L] by (simp add: merge_collections_def)
  have mem: "fst (main_combine_extra S L w extra_path A) = first_occurrences (identity_key_of L) (A @ B)"
    using assms(1,2,5) loop by (simp add: main_combine_extra_def main_dedup_loop_eq)
  have disk: "merge_extra_into_profiles S L w extra_path target_path =
           (case dump_json S w target_path
                   (JDict [(cp ''perfiles'', JList (first_occurrences (identity_key_of L) (A @ B)))]) of
              Inl e \<Rightarrow> (Inl e, w)
            | Inr w' \<Rightarrow> (Inr (length (first_occurrences (identity_key_of L) (A @ B))), w'))"
    using assms(1-5) loop
    by (simp add: merge_extra_into_profiles_def normalize_perfiles_eq merge_collections_def
          split: sum.splits)
  show ?thesis
    by (simp only: mem disk)
qed

theorem merge_entry_points_agree_witness:
  "path_exists sample_os sample_store (cp ''/d/extra.json'')
   \<and> load_json sample_os sample_store (cp ''/d/extra.json'') = Inr (JList [profile_B, profile_C])
   \<and> load_json sample_os sample_store (cp ''/d/profiles.json'')
        = Inr (JDict [(cp ''perfiles'', JList [profile_A, profile_B])])
   \<and> normalize_profiles (JDict [(cp ''perfiles'', JList [profile_A, profile_B])]) = Inr [profile_A, profile_B]
   \<and> normalize_profiles (JList [profile_B, profile_C]) = Inr [profile_B, profile_C]
   \<and> list_all isinstance_dict ([profile_A, profile_B] @ [profile_B, profile_C])
   \<and> fst (main_combine_extra sample_os sample_lib sample_store (cp ''/d/extra.json'') [profile_A, profile_B])
        = [profile_A, profile_B, profile_C]
   \<and> merge_extra_into_profiles sample_os sample_lib sample_store (cp ''/d/extra.json'') (cp ''/d/profiles.json'')
        = (Inr 3, (cp ''/d/profiles.json'',
                   JsonFile (JDict [(cp ''perfiles'', JList [profile_A, profile_B, profile_C])])) # sample_store)"
proof -
  have ex: "path_exists sample_os sample_store (cp ''/d/extra.json'')"
    by (simp add: sample_os_def sample_store_def cp_def)
  have l1: "load_json sample_os sample_store (cp ''/d/extra.json'') = Inr (JList [profile_B, profile_C])"
    by (simp add: sample_os_def sample_store_def cp_def)
  have l2: "load_json sample_os sample_store (cp ''/d/profiles.json'')
              = Inr (JDict [(cp ''perfiles'', JList [profile_A, profile_B])])"
    by (simp add: sample_os_def sample_store_def cp_def)
  have n1: "normalize_profiles (JDict [(cp ''perfiles'', JList [profile_A, profile_B])])
              = Inr [profile_A, profile_B]"
    by (simp add: normalize_profiles_def isinstance_dict_def isinstance_list_def list_items_def
          dict_items_def dict_get_def key_in_def)
  have n2: "normalize_profiles (JList [profile_B, profile_C]) = Inr [profile_B, profile_C]"
    by (simp add: normalize_profiles_def isinstance_dict_def isinstance_list_def list_items_def)
  have h: "\<forall>p\<in>set ([profile_A, profile_B] @ [profile_B, profile_C]). isinstance_dict p"
    by (simp add: sample_profiles_dict)
  have d: "dump_json sample_os sample_store (cp ''/d/profiles.json'') v
             = Inr ((cp ''/d/profiles.json'', JsonFile v) # sample_store)" for v
    by (simp add: sample_os_def)
  have fo: "first_occurrences (identity_key_of sample_lib) [profile_A, profile_B, profile_B, profile_C]
              = [profile_A, profile_B, profile_C]"
    using sample_keys_distinct by (simp add: first_occurrences_Cons first_occurrences_Nil)
  show ?thesis
    using merge_entry_points_agree [OF ex l1 l2 n1 n2 h, of sample_lib] ex l1 l2 n1 n2 h
    by (simp add: fo d)
qed

section \<open>Claims about validation\<close>

text \<open>
  The claim C3 as it is worded: seven required fields, and an empty mapping counts as
  empty like an empty sequence.
\<close>

definition claimed_required :: "pystr list" where
  "claimed_required = [cp ''nombre'', cp ''cargo'', cp ''resumen'', cp ''experiencias'',
                       cp ''educacion'', cp ''habilidades'', cp ''idiomas'']"

definition claimed_empty :: "json \<Rightarrow> bool" where
  "claimed_empty v = (v = JNull \<or> v = JStr [] \<or> v = JList [] \<or> v = JDict [])"

definition claimed_valid :: "(pystr \<times> json) list \<Rightarrow> bool" where
  "claimed_valid d = list_all (\<lambda>k. key_in k d \<and> \<not> claimed_empty (dict_get d k JNull)) claimed_required"

definition seven_fields :: "(pystr \<times> json) list" where
  "seven_fields =
     [(cp ''nombre'', JStr (cp ''Ana Ruiz'')),
      (cp ''cargo'', JStr (cp ''Engineer'')),
      (cp ''resumen'', JStr (cp ''x'')),
      (cp ''experiencias'', JList [JDict [(cp ''puesto'', JStr (cp ''Dev''))]]),
      (cp ''educacion'', JList [JDict [(cp ''grado'', JStr (cp ''BSc''))]]),
      (cp ''habilidades'', JList [JStr (cp ''Go'')]),
      (cp ''idiomas'', JDict [(cp ''Spanish'', JStr (cp ''Native''))])]"

definition eight_fields_no_idiomas :: "(pystr \<times> json) list" where
  "eight_fields_no_idiomas =
     [(cp ''nombre'', JStr (cp ''Ana Ruiz'')),
      (cp ''cargo'', JStr (cp ''Engineer'')),
      (cp ''contacto'', JList [JStr (cp ''a@x.com'')]),
      (cp ''resumen'', JStr (cp ''x'')),
      (cp ''experiencias'', JList [JDict [(cp ''puesto'', JStr (cp ''Dev''))]]),
      (cp ''educacion'', JList [JDict [(cp ''grado'', JStr (cp ''BSc''))]]),
      (cp ''habilidades'', JList [JStr (cp ''Go'')]),
      (cp ''idiomas'', JDict [])]"

text \<open>
  C3 fails as stated: a profile with the seven fields of the claim and no \<open>contacto\<close> is
  reported invalid, and a profile whose \<open>idiomas\<close> is the empty mapping is reported valid.
\<close>

theorem validate_seven_fields_counterexample:
  "claimed_valid seven_fields
   \<and> validate_profile (JDict seven_fields) = Inr (False, [cp ''contacto''])
   \<and> \<not> claimed_valid eight_fields_no_idiomas
   \<and> validate_profile (JDict eight_fields_no_idiomas) = Inr (True, [])"
  by code_simp

text \<open>
  C3, amended. \<open>validate_profile\<close> reports a profile valid exactly when each of the eight
  keys of \<open>REQUIRED_KEYS\<close> (the seven of the claim and \<open>contacto\<close>) is present with a value
  that is not \<open>None\<close>, not the empty string and not the empty list; no other key is looked
  at.
\<close>

theorem validate_valid_iff:
  "\<exists>missing. validate_profile (JDict d) =
      Inr (\<forall>k\<in>set [cp ''nombre'', cp ''cargo'', cp ''contacto'', cp ''resumen'',
                     cp ''experiencias'', cp ''educacion'', cp ''habilidades'', cp ''idiomas''].
             key_in k d \<and> dict_get d k JNull \<notin> {JNull, JStr [], JList []},
           missing)"
proof -
  have h: "(filter (\<lambda>k. \<not> key_in k d \<or> in_None_empty (dict_get d k JNull)) ks = []) =
           (\<forall>k\<in>set ks. key_in k d \<and> dict_get d k JNull \<notin> {JNull, JStr [], JList []})" for ks
    by (auto simp: filter_empty_conv in_None_empty_def)
  have "\<exists>missing. validate_profile (JDict d) =
      Inr (\<forall>k\<in>set REQUIRED_KEYS.
             key_in k d \<and> dict_get d k JNull \<notin> {JNull, JStr [], JList []},
           missing)"
    by (simp only: validate_profile_dict h) blast
  then show ?thesis
    by (simp only: REQUIRED_KEYS_def)
qed

theorem validate_valid_iff_witness:
  "\<exists>missing. validate_profile (JDict eight_fields_no_idiomas) = Inr (True, missing)"
proof -
  have "\<forall>k\<in>set [cp ''nombre'', cp ''cargo'', cp ''contacto'', cp ''resumen'',
                     cp ''experiencias'', cp ''educacion'', cp ''habilidades'', cp ''idiomas''].
             key_in k eight_fields_no_idiomas
           \<and> dict_get eight_fields_no_idiomas k JNull \<notin> {JNull, JStr [], JList []}"
    by code_simp
  then show ?thesis
    using validate_valid_iff [of eight_fields_no_idiomas] by simp
qed

text \<open>
  C8. On every dict \<open>validate_profile\<close> returns a result (it does not raise, and it is
  a function of the profile alone), and when the key \<open>resumen\<close> is absent it is in the list
  of missing keys.
\<close>

theorem validate_total:
  "\<exists>ok missing. validate_profile (JDict d) = Inr (ok, missing)
      \<and> (\<not> key_in (cp ''resumen'') d \<longrightarrow> cp ''resumen'' \<in> set missing)"
  by (simp add: validate_profile_dict REQUIRED_KEYS_def)

theorem validate_total_witness:
  "\<not> key_in (cp ''resumen'') [(cp ''nombre'', JStr (cp ''Ana''))]
   \<and> (\<exists>ok missing. validate_profile (JDict [(cp ''nombre'', JStr (cp ''Ana''))]) = Inr (ok, missing)
          \<and> cp ''resumen'' \<in> set missing)"
proof -
  have h: "\<not> key_in (cp ''resumen'') [(cp ''nombre'', JStr (cp ''Ana''))]"
    by (simp add: key_in_def cp_def)
  show ?thesis
    using h validate_total [of "[(cp ''nombre'', JStr (cp ''Ana''))]"] by blast
qed

section \<open>Claims about the slug\<close>







section \<open>Claims about photo preprocessing\<close>




section \<open>Claims about the orchestrator\<close>

text \<open>
  The photo chain of claim C4 as it is worded: the explicit path, then an exact basename
  match in the photos directory, then the guess by name.
\<close>

definition claimed_photo_chain ::
  "'w os_ops \<Rightarrow> pylib \<Rightarrow> 'w \<Rightarrow> pystr \<Rightarrow> (pystr \<times> json) list \<Rightarrow> error + pystr option" where
  "claimed_photo_chain S L w PROJECT_ROOT profile =
     (case resolve_photo_path S w PROJECT_ROOT (dict_get profile (cp ''ruta_foto'') JNull) of
        Inl e \<Rightarrow> Inl e
      | Inr ruta_foto \<Rightarrow>
          if truthy (dict_get profile (cp ''incluir_foto'') JNull) \<and> \<not> path_truthy ruta_foto then
            (case find_photo_by_basename S L w (DEFAULT_PHOTOS_DIR S PROJECT_ROOT)
                    (path_basename S (case dict_get profile (cp ''ruta_foto'') JNull of
                                        JStr r \<Rightarrow> r | _ \<Rightarrow> [])) of
               Some p \<Rightarrow> Inr (Some p)
             | None \<Rightarrow>
                 find_photo_by_name_guess S L w (DEFAULT_PHOTOS_DIR S PROJECT_ROOT)
                   (dict_get profile (cp ''nombre'') (JStr [])))
          else Inr ruta_foto)"

text \<open>
  A photos directory that holds \<open>foto1.png\<close>, and a complete profile of Ana Ruiz that asks
  for a photo and names it \<open>foto1\<close>.
\<close>

definition photo_world :: sample_world where
  "photo_world =
     [(cp ''/app/cv_template/assets/photos/foto1.png'', PlainFile),
      (cp ''/app/cv_template/assets/photos'', Directory [cp ''foto1.png''])]"

definition photo_profile :: "(pystr \<times> json) list" where
  "photo_profile =
     [(cp ''nombre'', JStr (cp ''Ana Ruiz'')),
      (cp ''cargo'', JStr (cp ''Engineer'')),
      (cp ''contacto'', JList [JStr (cp ''a@x.com'')]),
      (cp ''resumen'', JStr (cp ''x'')),
      (cp ''experiencias'', JList [JDict [(cp ''puesto'', JStr (cp ''Dev''))]]),
      (cp ''educacion'', JList [JDict [(cp ''grado'', JStr (cp ''BSc''))]]),
      (cp ''habilidades'', JList [JStr (cp ''Go'')]),
      (cp ''idiomas'', JDict [(cp ''Spanish'', JStr (cp ''Native''))]),
      (cp ''incluir_foto'', JBool True),
      (cp ''ruta_foto'', JStr (cp ''foto1''))]"

lemma photos_dir: "DEFAULT_PHOTOS_DIR sample_os (cp ''/app'') = cp ''/app/cv_template/assets/photos''"
  by (simp add: DEFAULT_PHOTOS_DIR_def sample_os_def posix_join_def posix_isabs_def cp_def)

lemma photo_profile_get:
  "dict_get photo_profile (cp ''ruta_foto'') JNull = JStr (cp ''foto1'')"
  "dict_get photo_profile (cp ''incluir_foto'') JNull = JBool True"
  "dict_get photo_profile (cp ''nombre'') (JStr []) = JStr (cp ''Ana Ruiz'')"
  by (simp_all add: photo_profile_def dict_get_def cp_def)

lemma photo_resolve:
  "resolve_photo_path sample_os photo_world (cp ''/app'') (JStr (cp ''foto1'')) = Inr None"
proof -
  have j1: "path_join sample_os (cp ''/app'') (cp ''foto1'') = cp ''/app/foto1''"
    by (simp add: sample_os_def posix_join_def posix_isabs_def cp_def)
  have j2: "path_join sample_os (cp ''/app/cv_template/assets/photos'') (cp ''foto1'')
            = cp ''/app/cv_template/assets/photos/foto1''"
    by (simp add: sample_os_def posix_join_def posix_isabs_def cp_def)
  have a: "\<not> path_isabs sample_os (cp ''foto1'')"
    by (simp add: sample_os_def posix_isabs_def cp_def)
  have e1: "\<not> path_exists sample_os photo_world (cp ''/app/foto1'')"
    by (simp add: sample_os_def photo_world_def cp_def)
  have e2: "\<not> path_exists sample_os photo_world (cp ''/app/cv_template/assets/photos/foto1'')"
    by (simp add: sample_os_def photo_world_def cp_def)
  have t: "truthy (JStr (cp ''foto1''))"
    by (simp add: truthy_def cp_def)
  show ?thesis
    by (simp add: resolve_photo_path_def t a j1 j2 e1 e2 photos_dir)
qed

lemma photo_basename:
  "find_photo_by_basename sample_os sample_lib photo_world (cp ''/app/cv_template/assets/photos'')
     (cp ''foto1'') = Some (cp ''/app/cv_template/assets/photos/foto1.png'')"
proof -
  have sp: "path_splitext sample_os (cp ''foto1'') = (cp ''foto1'', [])"
    by (simp add: sample_os_def posix_splitext_def cp_def)
  have c: "filter (path_exists sample_os photo_world)
             (map (\<lambda>e. path_join sample_os (cp ''/app/cv_template/assets/photos'') (cp ''foto1'' @ e)) photo_exts)
           = [cp ''/app/cv_template/assets/photos/foto1.png'']"
    by (simp add: sample_os_def posix_join_def posix_isabs_def photo_exts_def photo_world_def cp_def)
  have f: "first_by_preference sample_lib photo_exts [cp ''/app/cv_template/assets/photos/foto1.png'']
           = Some (cp ''/app/cv_template/assets/photos/foto1.png'')"
    by (simp add: photo_exts_def sample_lib_sel ascii_lower_def cp_def suffix_to_prefix)
  have ne: "cp ''foto1'' \<noteq> []" by (simp add: cp_def)
  show ?thesis
    by (simp add: find_photo_by_basename_def sp c f ne)
qed

lemma slug_ana_ruiz: "slug sample_lib (cp ''Ana Ruiz'') = cp ''ana-ruiz''"
proof -
  have n: "slug_normalise sample_lib (cp ''Ana Ruiz'') = cp ''ana ruiz''"
    by (simp add: sample_normalise ascii_strip_def ascii_space_def ascii_lower_def cp_def)
  have out: "slug_out sample_lib (cp ''ana ruiz'') = cp ''ana-ruiz''"
    by (simp add: sample_lib_sel sample_isalnum_def cp_def)
  have c: "collapse_hyphens (cp ''ana-ruiz'') = cp ''ana-ruiz''"
    by (subst collapse_hyphens.simps) (simp add: cp_def)
  have s: "strip_hyphens (cp ''ana-ruiz'') = cp ''ana-ruiz''"
    by (simp add: strip_hyphens_def cp_def)
  show ?thesis
    by (simp only: slug_def n out c s)
qed

lemma slug_foto1: "slug sample_lib (cp ''foto1'') = cp ''foto1''"
proof -
  have n: "slug_normalise sample_lib (cp ''foto1'') = cp ''foto1''"
    by (simp add: sample_normalise ascii_strip_def ascii_space_def ascii_lower_def cp_def)
  have out: "slug_out sample_lib (cp ''foto1'') = cp ''foto1''"
    by (simp add: sample_lib_sel sample_isalnum_def cp_def)
  have c: "collapse_hyphens (cp ''foto1'') = cp ''foto1''"
    by (subst collapse_hyphens.simps) (simp add: cp_def)
  have s: "strip_hyphens (cp ''foto1'') = cp ''foto1''"
    by (simp add: strip_hyphens_def cp_def)
  show ?thesis
    by (simp only: slug_def n out c s)
qed

lemma photo_name_guess:
  "find_photo_by_name_guess sample_os sample_lib photo_world (cp ''/app/cv_template/assets/photos'')
     (JStr (cp ''Ana Ruiz'')) = Inr None"
proof -
  have t: "truthy (JStr (cp ''Ana Ruiz''))"
    by (simp add: truthy_def cp_def)
  have d: "path_isdir sample_os photo_world (cp ''/app/cv_template/assets/photos'')"
    by (simp add: sample_os_def photo_world_def cp_def)
  have l: "os_listdir sample_os photo_world (cp ''/app/cv_template/assets/photos'') = Some [cp ''foto1.png'']"
    by (simp add: sample_os_def photo_world_def cp_def)
  have sp: "path_splitext sample_os (cp ''foto1.png'') = (cp ''foto1'', cp ''.png'')"
    by (simp add: sample_os_def posix_splitext_def cp_def)
  have sub: "\<not> sublist (cp ''ana-ruiz'') (cp ''foto1'')" "\<not> sublist (cp ''foto1'') (cp ''ana-ruiz'')"
    by (simp_all add: sublist_code prefix_code cp_def)
  have f: "fst (path_splitext sample_os (cp ''foto1.png'')) = cp ''foto1''"
    by (simp add: sp)
  have loop: "name_guess_loop sample_os sample_lib photo_world (cp ''/app/cv_template/assets/photos'')
                (cp ''ana-ruiz'') [cp ''foto1.png''] = None"
    by (simp add: f slug_foto1 sub)
  show ?thesis
    by (simp add: find_photo_by_name_guess_def t d l slug_ana_ruiz loop del: name_guess_loop.simps)
qed

lemma photo_ruta_foto:
  "build_one_ruta_foto sample_os sample_lib photo_world (cp ''/app'') photo_profile
     = Inr (None, [INFO_foto_no_encontrada])"
  by (simp add: build_one_ruta_foto_def photo_profile_get photo_resolve
        photos_dir photo_name_guess truthy_def path_truthy_def)

lemma photo_profile_valid: "validate_profile (JDict photo_profile) = Inr (True, [])"
  by code_simp

lemma photo_build_one:
  "build_one sample_os sample_lib (cp ''/app'')
      \<lparr>world = photo_world, heap = [JDict photo_profile], printed = []\<rparr> 0 (cp ''/app/output'')
      False 600 204800
   = (None,
      \<lparr>world = (cp ''/app/output/CV_Ana Ruiz.docx'', PlainFile)
                # (cp ''/app/output'', Directory []) # photo_world,
       heap = [JDict photo_profile, JDict (dict_set photo_profile (cp ''ruta_foto'') JNull)],
       printed = [INFO_foto_no_encontrada, Documento_generado]\<rparr>)"
proof -
  have mk: "makedirs sample_os photo_world (cp ''/app/output'')
              = Inr ((cp ''/app/output'', Directory []) # photo_world)"
    by (simp add: sample_os_def photo_world_def cp_def)
  have nm: "dict_get (dict_set photo_profile (cp ''ruta_foto'') JNull) (cp ''nombre'') JNull
              = JStr (cp ''Ana Ruiz'')"
    by (simp add: photo_profile_def dict_get_def cp_def)
  have j: "posix_join (cp ''/app/output'') (cp ''CV_'' @ cp ''Ana Ruiz'' @ cp ''.docx'')
             = cp ''/app/output/CV_Ana Ruiz.docx''"
    by (simp add: posix_join_def posix_isabs_def cp_def)
  have cv: "construir_cv sample_os w (JDict (dict_set photo_profile (cp ''ruta_foto'') JNull)) (cp ''/app/output'')
              = (None, (cp ''/app/output/CV_Ana Ruiz.docx'', PlainFile) # w)" for w
    by (simp add: sample_os_def dict_items_def nm j)
  show ?thesis
    by (simp add: build_one_def photo_profile_valid dict_items_def photo_ruta_foto
          build_one_attach_def photo_profile_get truthy_def path_truthy_def path_value_def
          setitem_def mk cv)
qed

lemma setitem_take: "n \<le> a \<Longrightarrow> take n (setitem h a k v) = take n h"
  by (simp add: setitem_def)

lemma build_one_attach_heap:
  "\<exists>v. heap (build_one_attach S L R st data incluir ruta pp px mb)
        = setitem (heap st) data (cp ''ruta_foto'') v"
  by (auto simp: build_one_attach_def split: prod.splits sum.splits)

lemma build_one_attach_take:
  assumes "n \<le> data"
  shows "take n (heap (build_one_attach S L R st data incluir ruta pp px mb)) = take n (heap st)"
proof -
  obtain v where "heap (build_one_attach S L R st data incluir ruta pp px mb)
        = setitem (heap st) data (cp ''ruta_foto'') v"
    using build_one_attach_heap by blast
  then show ?thesis using assms by (simp add: setitem_take)
qed

lemma build_one_heap_prefix:
  "take (length (heap st)) (heap (snd (build_one S L R st profile outdir pp px mb))) = heap st"
proof (cases "validate_profile (heap st ! profile)")
  case (Inl e)
  then show ?thesis by (simp add: build_one_def)
next
  case (Inr r)
  obtain ok missing where r: "r = (ok, missing)" by (cases r)
  show ?thesis
  proof (cases ok)
    case False
    then show ?thesis using Inr r by (simp add: build_one_def)
  next
    case True
    define st1 where "st1 = st\<lparr>heap := heap st @ [JDict (dict_items (heap st ! profile))]\<rparr>"
    show ?thesis
    proof (cases "build_one_ruta_foto S L (world st1) R (dict_items (heap st ! profile))")
      case (Inl e)
      then show ?thesis using Inr r True by (simp add: build_one_def st1_def Let_def)
    next
      case rf: (Inr x)
      obtain ruta_foto msgs where x: "x = (ruta_foto, msgs)" by (cases x)
      define st2 where "st2 = build_one_attach S L R (st1\<lparr>printed := printed st1 @ msgs\<rparr>)
          (length (heap st))
          (truthy (dict_get (dict_items (heap st ! profile)) (cp ''incluir_foto'') JNull))
          ruta_foto pp px mb"
      have h2: "take (length (heap st)) (heap st2) = heap st"
        unfolding st2_def by (subst build_one_attach_take) (simp_all add: st1_def)
      have "heap (snd (build_one S L R st profile outdir pp px mb)) = heap st2"
        using Inr r True rf x
        by (simp add: build_one_def Let_def st1_def [symmetric] st2_def [symmetric]
              split: sum.splits prod.splits option.splits)
      then show ?thesis using h2 by simp
    qed
  qed
qed

text \<open>
  C1. The count of the final line is meant to be the number of documents generated. A
  run over one profile without any field skips it with a warning, generates no document,
  and still ends with the count 1: \<open>build_one\<close> returns without raising and the loop adds
  one.
\<close>

theorem main_counts_skipped_profile:
  "main_generate sample_os sample_lib (cp ''/app'') (cp ''/app/output'') False 600 204800
     \<lparr>world = [], heap = [JDict []], printed = []\<rparr> [0]
   = (1, \<lparr>world = [], heap = [JDict []],
          printed = [WARN_perfil_omitido REQUIRED_KEYS, Listo_CVs_generados 1]\<rparr>)"
proof -
  have v: "validate_profile (JDict []) = Inr (False, REQUIRED_KEYS)"
    by (simp add: validate_profile_dict key_in_def REQUIRED_KEYS_def)
  have b: "build_one sample_os sample_lib (cp ''/app'') \<lparr>world = [], heap = [JDict []], printed = []\<rparr> 0
             (cp ''/app/output'') False 600 204800
           = (None, \<lparr>world = [], heap = [JDict []], printed = [WARN_perfil_omitido REQUIRED_KEYS]\<rparr>)"
    by (simp add: build_one_def v)
  show ?thesis
    by (simp add: main_generate_def b)
qed

text \<open>
  C4 fails as stated: the explicit path \<open>foto1\<close> does not resolve, a basename match would
  find \<open>foto1.png\<close>, but \<open>build_one\<close> goes straight to the guess by name, which finds
  nothing for \<open>Ana Ruiz\<close>, and proceeds without a photo.
\<close>

theorem build_one_skips_basename_counterexample:
  "claimed_photo_chain sample_os sample_lib photo_world (cp ''/app'') photo_profile
     = Inr (Some (cp ''/app/cv_template/assets/photos/foto1.png''))
   \<and> build_one_ruta_foto sample_os sample_lib photo_world (cp ''/app'') photo_profile
     = Inr (None, [INFO_foto_no_encontrada])"
proof -
  have b: "path_basename sample_os (cp ''foto1'') = cp ''foto1''"
    by (simp add: sample_os_def posix_basename_def cp_def)
  show ?thesis
    by (simp add: claimed_photo_chain_def build_one_ruta_foto_def photo_profile_get photo_resolve
          photos_dir photo_basename photo_name_guess b truthy_def path_truthy_def)
qed

text \<open>
  C4, amended. For a profile whose photo flag is set and whose explicit path does not
  resolve, \<open>build_one\<close> next tries the guess by name in the default photos directory, and
  proceeds without a photo, with a note, when the guess finds nothing; it attempts no
  basename match.
\<close>

theorem build_one_photo_chain:
  assumes "truthy (dict_get profile (cp ''incluir_foto'') JNull)"
      and "resolve_photo_path S w PROJECT_ROOT (dict_get profile (cp ''ruta_foto'') JNull) = Inr None"
  shows "build_one_ruta_foto S L w PROJECT_ROOT profile =
           (case find_photo_by_name_guess S L w (DEFAULT_PHOTOS_DIR S PROJECT_ROOT)
                   (dict_get profile (cp ''nombre'') (JStr [])) of
              Inl e \<Rightarrow> Inl e
            | Inr guess \<Rightarrow>
                if path_truthy guess then Inr (guess, [])
                else Inr (None, [INFO_foto_no_encontrada]))"
  using assms by (simp add: build_one_ruta_foto_def path_truthy_def)

theorem build_one_photo_chain_witness:
  "truthy (dict_get photo_profile (cp ''incluir_foto'') JNull)
   \<and> resolve_photo_path sample_os photo_world (cp ''/app'') (dict_get photo_profile (cp ''ruta_foto'') JNull)
       = Inr None
   \<and> build_one_ruta_foto sample_os sample_lib photo_world (cp ''/app'') photo_profile
       = Inr (None, [INFO_foto_no_encontrada])"
proof -
  have t: "truthy (dict_get photo_profile (cp ''incluir_foto'') JNull)"
    by (simp add: photo_profile_get truthy_def)
  have r: "resolve_photo_path sample_os photo_world (cp ''/app'') (dict_get photo_profile (cp ''ruta_foto'') JNull)
       = Inr None"
    by (simp add: photo_profile_get photo_resolve)
  show ?thesis
    using build_one_photo_chain [OF t r, of sample_lib] t r
    by (simp add: photos_dir photo_profile_get photo_name_guess path_truthy_def)
qed

text \<open>
  C9. \<open>build_one\<close> leaves the profile it is given as it was: the photo path is written
  to the copy \<open>data\<close>, a new object of the heap, whatever the outcome of the call.
\<close>

theorem build_one_leaves_profile:
  assumes "profile < length (heap st)"
  shows "heap (snd (build_one S L R st profile outdir pp px mb)) ! profile = heap st ! profile"
proof -
  have "take (length (heap st)) (heap (snd (build_one S L R st profile outdir pp px mb))) ! profile
        = heap st ! profile"
    by (simp only: build_one_heap_prefix)
  then show ?thesis using assms by simp
qed

theorem build_one_leaves_profile_witness:
  "0 < length (heap \<lparr>world = photo_world, heap = [JDict photo_profile], printed = []\<rparr>)
   \<and> heap (snd (build_one sample_os sample_lib (cp ''/app'')
        \<lparr>world = photo_world, heap = [JDict photo_profile], printed = []\<rparr> 0 (cp ''/app/output'')
        False 600 204800)) ! 0 = JDict photo_profile
   \<and> heap (snd (build_one sample_os sample_lib (cp ''/app'')
        \<lparr>world = photo_world, heap = [JDict photo_profile], printed = []\<rparr> 0 (cp ''/app/output'')
        False 600 204800)) ! 1 = JDict (dict_set photo_profile (cp ''ruta_foto'') JNull)
   \<and> dict_get photo_profile (cp ''ruta_foto'') JNull = JStr (cp ''foto1'')
   \<and> dict_get (dict_set photo_profile (cp ''ruta_foto'') JNull) (cp ''ruta_foto'') JNull = JNull"
proof -
  have l: "0 < length (heap \<lparr>world = photo_world, heap = [JDict photo_profile], printed = []\<rparr>)"
    by simp
  have g: "dict_get (dict_set photo_profile (cp ''ruta_foto'') JNull) (cp ''ruta_foto'') JNull = JNull"
    by (simp add: photo_profile_def dict_get_def cp_def)
  show ?thesis
    using build_one_leaves_profile [OF l, of sample_os sample_lib "cp ''/app''" "cp ''/app/output''"
        False 600 204800]
    by (simp add: photo_build_one photo_profile_get g)
qed

end
